theory Spec2Isabelle
  imports Main "HOL-Library.Sublist"
begin

section \<open>The multi-provider AI service of \<^verbatim>\<open>app/services/ai_service.py\<close>\<close>

text \<open>
  The service keeps a dictionary of provider adapters (name to adapter) and a default
  provider name. \<^verbatim>\<open>AIService.generate\<close> resolves the provider to try first, calls its
  adapter and, when that call raises, walks the dictionary and calls every other adapter
  until one returns.

  What the embedding fixes:
  \<^item> a Python \<^verbatim>\<open>str\<close> is a \<open>string\<close>; the code only searches for the ASCII characters
    \<^verbatim>\<open>{\<close> and \<^verbatim>\<open>}\<close> and slices between them, so one \<open>char\<close> stands for one character;
  \<^item> a Python \<^verbatim>\<open>dict\<close> is an association list in insertion order whose keys are
    distinct; \<open>dict_set\<close> is item assignment, \<open>dict_keys\<close> the iteration order;
  \<^item> an adapter's \<^verbatim>\<open>generate\<close> is a network call: its outcome for a prompt and the
    keyword arguments is a value \<open>backend_error + string\<close>, where \<open>Inl\<close> is the exception
    the adapter lets through (every adapter re-raises what it caught) and \<open>Inr\<close> the
    text it returns. The failures are ordinary exceptions (transport, authentication,
    decoding errors): subclasses of \<^verbatim>\<open>Exception\<close>, which both \<^verbatim>\<open>except Exception\<close> and the
    bare \<^verbatim>\<open>except\<close> of the service catch;
  \<^item> every function that calls adapters returns, beside its result, the list of the
    provider names whose adapter was invoked, in the order of the calls.
\<close>

subsection \<open>Values\<close>

text \<open>Keyword arguments are passed through to the adapters unchanged. A float is kept
  as the decimal literal the source writes (no arithmetic is done on it).\<close>

datatype kwarg = KwFloat string | KwInt int | KwStr string | KwNone

type_synonym kwargs = "(string \<times> kwarg) list"

datatype backend_error = BackendError string

type_synonym adapter = "string \<Rightarrow> kwargs \<Rightarrow> backend_error + string"

text \<open>The exceptions the service itself raises: \<^verbatim>\<open>ValueError(msg)\<close> and \<^verbatim>\<open>Exception(msg)\<close>.
  An exception raised inside an \<^verbatim>\<open>except\<close> block keeps the exception being handled as
  its implicit \<^verbatim>\<open>__context__\<close>: the second field of \<open>PyException\<close>, \<open>None\<close> for an
  exception raised outside every handler. What the handler of \<open>generate\<close> can be
  handling is the exception of an adapter, or the \<^verbatim>\<open>KeyError\<close> of a dictionary lookup.\<close>

datatype handled = AdapterException backend_error | KeyError string

datatype py_exception = ValueError string | PyException string "handled option"

record AIService =
  providers :: "(string \<times> adapter) list"
  default_provider :: string

type_synonym trace = "string list"

subsection \<open>Dictionaries and \<^verbatim>\<open>or\<close>\<close>

fun dict_set :: "('k \<times> 'v) list \<Rightarrow> 'k \<Rightarrow> 'v \<Rightarrow> ('k \<times> 'v) list" where
  "dict_set [] k v = [(k, v)]"
| "dict_set ((k', v') # d) k v =
     (if k' = k then (k, v) # d else (k', v') # dict_set d k v)"

definition dict_keys :: "('k \<times> 'v) list \<Rightarrow> 'k list" where
  "dict_keys d = map fst d"

definition dict_get :: "('k \<times> 'v) list \<Rightarrow> 'k \<Rightarrow> 'v option" where
  "dict_get d k = map_of d k"

text \<open>\<^verbatim>\<open>provider or self.default_provider\<close>: \<^verbatim>\<open>None\<close> and the empty string are falsy.\<close>

definition py_or :: "string option \<Rightarrow> string \<Rightarrow> string" where
  "py_or a b = (case a of None \<Rightarrow> b | Some s \<Rightarrow> if s = [] then b else s)"

subsection \<open>\<^verbatim>\<open>AIService.generate\<close>\<close>

text \<open>Lines 224 to 232: the name to try first. A name that is not a key is replaced by
  the first key; with no key at all the call raises \<^verbatim>\<open>ValueError\<close>.\<close>

definition resolve_provider :: "AIService \<Rightarrow> string option \<Rightarrow> py_exception + string" where
  "resolve_provider self provider =
     (let provider_name = py_or provider (default_provider self) in
      if provider_name \<notin> set (dict_keys (providers self)) then
        (if providers self \<noteq> [] then Inr (hd (dict_keys (providers self)))
         else Inl (ValueError ''No AI providers available''))
      else Inr provider_name)"

text \<open>Lines 241 to 249: the loop over the dictionary's keys, inside the handler
  \<^verbatim>\<open>except Exception as e\<close> of line 238; \<open>e\<close> is the last argument. A key equal to the
  name already tried is skipped; the first adapter that returns ends the call; an adapter
  that raises is passed over and its exception dropped (\<^verbatim>\<open>except: continue\<close>, which would
  also swallow the \<^verbatim>\<open>KeyError\<close> of a missing key). After the last key
  \<^verbatim>\<open>Exception("All AI providers failed")\<close> is raised, still inside the handler of \<open>e\<close>,
  which is therefore its context.\<close>

fun fallback_loop ::
  "(string \<times> adapter) list \<Rightarrow> string list \<Rightarrow> string \<Rightarrow> string \<Rightarrow> kwargs \<Rightarrow> handled
     \<Rightarrow> (py_exception + string) \<times> trace" where
  "fallback_loop ps [] provider_name prompt kw e =
     (Inl (PyException ''All AI providers failed'' (Some e)), [])"
| "fallback_loop ps (fallback_provider # rest) provider_name prompt kw e =
     (if fallback_provider \<noteq> provider_name then
        (case dict_get ps fallback_provider of
           None \<Rightarrow> fallback_loop ps rest provider_name prompt kw e
         | Some a \<Rightarrow>
             (case a prompt kw of
                Inr result \<Rightarrow> (Inr result, [fallback_provider])
              | Inl e' \<Rightarrow>
                  (case fallback_loop ps rest provider_name prompt kw e of
                     (r, tr) \<Rightarrow> (r, fallback_provider # tr))))
      else fallback_loop ps rest provider_name prompt kw e)"

text \<open>Lines 234 to 249: the call of the chosen adapter and, when it raises, the loop
  with the exception caught.\<close>

definition try_providers ::
  "AIService \<Rightarrow> string \<Rightarrow> string \<Rightarrow> kwargs \<Rightarrow> (py_exception + string) \<times> trace" where
  "try_providers self provider_name prompt kw =
     (case dict_get (providers self) provider_name of
        None \<Rightarrow>
          fallback_loop (providers self) (dict_keys (providers self)) provider_name prompt kw
            (KeyError provider_name)
      | Some a \<Rightarrow>
          (case a prompt kw of
             Inr result \<Rightarrow> (Inr result, [provider_name])
           | Inl e \<Rightarrow>
               (case fallback_loop (providers self) (dict_keys (providers self))
                       provider_name prompt kw (AdapterException e) of
                  (r, tr) \<Rightarrow> (r, provider_name # tr))))"

definition generate ::
  "AIService \<Rightarrow> string \<Rightarrow> string option \<Rightarrow> kwargs \<Rightarrow> (py_exception + string) \<times> trace" where
  "generate self prompt provider kw =
     (case resolve_provider self provider of
        Inl e \<Rightarrow> (Inl e, [])
      | Inr provider_name \<Rightarrow> try_providers self provider_name prompt kw)"

subsection \<open>The route \<^verbatim>\<open>generate_text\<close> of \<^verbatim>\<open>app/api/routes/ai.py\<close>\<close>

text \<open>The request and response schemas. A float is a decimal literal, as in \<open>kwarg\<close>.\<close>

record GenerateRequest =
  req_prompt :: string
  req_provider :: "string option"
  req_temperature :: string
  req_max_tokens :: int
  req_system_prompt :: "string option"

record GenerateResponse =
  resp_response :: string
  resp_provider :: string
  resp_model :: string

datatype http_error = HTTPException int string

definition exception_str :: "py_exception \<Rightarrow> string" where
  "exception_str e = (case e of ValueError msg \<Rightarrow> msg | PyException msg c \<Rightarrow> msg)"

definition request_kwargs :: "GenerateRequest \<Rightarrow> kwargs" where
  "request_kwargs request =
     [(''temperature'', KwFloat (req_temperature request)),
      (''max_tokens'', KwInt (req_max_tokens request)),
      (''system_prompt'',
         (case req_system_prompt request of None \<Rightarrow> KwNone | Some s \<Rightarrow> KwStr s))]"

text \<open>Lines 65 to 80. The service returns the text alone, so the route fills the
  \<^verbatim>\<open>provider\<close> field with \<^verbatim>\<open>request.provider or ai.default_provider\<close>; every exception
  becomes an \<^verbatim>\<open>HTTPException\<close> with status 500, of which the framework sends the status
  and the detail to the client.\<close>

definition generate_text ::
  "AIService \<Rightarrow> GenerateRequest \<Rightarrow> (http_error + GenerateResponse) \<times> trace" where
  "generate_text ai request =
     (case generate ai (req_prompt request) (req_provider request) (request_kwargs request) of
        (Inr response, tr) \<Rightarrow>
          (Inr \<lparr>resp_response = response,
                resp_provider = py_or (req_provider request) (default_provider ai),
                resp_model = ''auto''\<rparr>, tr)
      | (Inl e, tr) \<Rightarrow>
          (Inl (HTTPException 500 (''AI generation error: '' @ exception_str e)), tr))"

subsection \<open>Construction of the service\<close>

text \<open>\<^verbatim>\<open>os.getenv\<close> reads the environment, a partial map from names to values; an unset
  and an empty variable are both falsy. The network behaviour of the five backends is
  the parameter \<open>backend\<close>, from the provider's name to its adapter. The client
  constructors of the first four adapters are taken to return (when one raises, no
  service object exists); \<^verbatim>\<open>OllamaProvider()\<close> only reads two environment variables
  with defaults.\<close>

type_synonym environ = "string \<Rightarrow> string option"

definition truthy :: "string option \<Rightarrow> bool" where
  "truthy v = (case v of None \<Rightarrow> False | Some s \<Rightarrow> s \<noteq> [])"

definition initialize_providers :: "environ \<Rightarrow> (string \<Rightarrow> adapter) \<Rightarrow> (string \<times> adapter) list" where
  "initialize_providers env backend =
     (let ps = [];
          ps = (if truthy (env ''OPENAI_API_KEY'')
                then dict_set ps ''openai'' (backend ''openai'') else ps);
          ps = (if truthy (env ''ANTHROPIC_API_KEY'')
                then dict_set ps ''claude'' (backend ''claude'') else ps);
          ps = (if truthy (env ''GOOGLE_API_KEY'')
                then dict_set ps ''gemini'' (backend ''gemini'') else ps);
          ps = (if truthy (env ''GROQ_API_KEY'')
                then dict_set ps ''groq'' (backend ''groq'') else ps)
      in dict_set ps ''ollama'' (backend ''ollama''))"

definition AIService_init :: "environ \<Rightarrow> (string \<Rightarrow> adapter) \<Rightarrow> AIService" where
  "AIService_init env backend =
     \<lparr>providers = initialize_providers env backend,
      default_provider =
        (case env ''DEFAULT_AI_PROVIDER'' of None \<Rightarrow> ''openai'' | Some v \<Rightarrow> v)\<rparr>"

subsection \<open>Strings: \<^verbatim>\<open>find\<close>, \<^verbatim>\<open>rfind\<close> and slices\<close>

text \<open>\<^verbatim>\<open>s.find(c)\<close> is the lowest index of \<open>c\<close> and \<^verbatim>\<open>s.rfind(c)\<close> the highest, \<open>-1\<close>
  when \<open>c\<close> does not occur. \<^verbatim>\<open>s[a:b]\<close> counts a negative index from the end and clips
  both indices to the string.\<close>

fun str_find :: "string \<Rightarrow> char \<Rightarrow> int" where
  "str_find [] c = - 1"
| "str_find (x # xs) c =
     (if x = c then 0 else (let i = str_find xs c in if i = - 1 then - 1 else i + 1))"

fun str_rfind :: "string \<Rightarrow> char \<Rightarrow> int" where
  "str_rfind [] c = - 1"
| "str_rfind (x # xs) c =
     (let i = str_rfind xs c in if i \<noteq> - 1 then i + 1 else if x = c then 0 else - 1)"

definition slice_index :: "nat \<Rightarrow> int \<Rightarrow> nat" where
  "slice_index n i = (if i < 0 then nat (max 0 (int n + i)) else min (nat i) n)"

definition py_slice :: "string \<Rightarrow> int \<Rightarrow> int \<Rightarrow> string" where
  "py_slice s a b =
     (let lo = slice_index (length s) a; hi = slice_index (length s) b
      in take (hi - lo) (drop lo s))"

subsection \<open>The derived operations\<close>

text \<open>What the operations return: the value \<^verbatim>\<open>json.loads\<close> built, or a literal
  dictionary. A float is kept as its decimal literal, an object as a dictionary.\<close>

datatype json =
    JNull | JBool bool | JInt int | JFloat string | JStr string
  | JArr "json list" | JObj "(string \<times> json) list"

definition sentiment_prompt :: "string \<Rightarrow> string" where
  \<open>sentiment_prompt text =
     ''Analyze the sentiment of the following text and respond with JSON only:\<newline>\<newline>Text: ''
     @ text @
     ''\<newline>\<newline>Respond with this exact JSON structure:\<newline>{\<newline>''
     @ ''    "sentiment": "positive/negative/neutral",\<newline>''
     @ ''    "confidence": 0.0-1.0,\<newline>''
     @ ''    "emotions": ["emotion1", "emotion2"],\<newline>''
     @ ''    "tone": "description of tone"\<newline>}''\<close>

definition intent_prompt :: "string \<Rightarrow> string" where
  \<open>intent_prompt text =
     ''Extract the intent from the following text and respond with JSON only:\<newline>\<newline>Text: ''
     @ text @
     ''\<newline>\<newline>Respond with this exact JSON structure:\<newline>{\<newline>''
     @ ''    "primary_intent": "intent_name",\<newline>''
     @ ''    "confidence": 0.0-1.0,\<newline>''
     @ ''    "entities": {"entity_type": "entity_value"},\<newline>''
     @ ''    "action_required": "suggested action"\<newline>}''\<close>

definition derived_kwargs :: kwargs where
  "derived_kwargs = [(''temperature'', KwFloat ''0.3'')]"

text \<open>The four literal dictionaries of lines 273 to 286 and 309 to 322.\<close>

definition sentiment_unclear :: json where
  "sentiment_unclear =
     JObj [(''sentiment'', JStr ''neutral''), (''confidence'', JFloat ''0.5''),
           (''emotions'', JArr []), (''tone'', JStr ''unclear'')]"

definition sentiment_error :: json where
  "sentiment_error =
     JObj [(''sentiment'', JStr ''neutral''), (''confidence'', JFloat ''0.0''),
           (''emotions'', JArr []), (''tone'', JStr ''error'')]"

definition intent_clarify :: json where
  "intent_clarify =
     JObj [(''primary_intent'', JStr ''unknown''), (''confidence'', JFloat ''0.0''),
           (''entities'', JObj []), (''action_required'', JStr ''clarify'')]"

definition intent_error :: json where
  "intent_error =
     JObj [(''primary_intent'', JStr ''unknown''), (''confidence'', JFloat ''0.0''),
           (''entities'', JObj []), (''action_required'', JStr ''error'')]"

text \<open>Lines 265 to 286 and 302 to 322. \<^verbatim>\<open>json.loads\<close> belongs to Python's standard
  library; it is the parameter \<open>loads\<close>, \<open>None\<close> when it raises. The whole body stands
  in \<^verbatim>\<open>try\<close> ... \<^verbatim>\<open>except Exception\<close>, so an exception of \<open>generate\<close> and one of
  \<open>loads\<close> both end in the handler's dictionary. The result type keeps the \<open>Inl\<close> side
  for an exception that leaves the operation.\<close>

definition extract_json :: "(string \<Rightarrow> json option) \<Rightarrow> string \<Rightarrow> json \<Rightarrow> json \<Rightarrow> json" where
  "extract_json loads response no_json on_error =
     (let json_start = str_find response (CHR ''{'');
          json_end = str_rfind response (CHR ''}'') + 1
      in if json_start \<noteq> - 1 \<and> json_end > json_start then
           (case loads (py_slice response json_start json_end) of
              Some v \<Rightarrow> v
            | None \<Rightarrow> on_error)
         else no_json)"

definition analyze_sentiment ::
  "(string \<Rightarrow> json option) \<Rightarrow> AIService \<Rightarrow> string \<Rightarrow> py_exception + json" where
  "analyze_sentiment loads self text =
     (case fst (generate self (sentiment_prompt text) None derived_kwargs) of
        Inl e \<Rightarrow> Inr sentiment_error
      | Inr response \<Rightarrow> Inr (extract_json loads response sentiment_unclear sentiment_error))"

definition extract_intent ::
  "(string \<Rightarrow> json option) \<Rightarrow> AIService \<Rightarrow> string \<Rightarrow> py_exception + json" where
  "extract_intent loads self text =
     (case fst (generate self (intent_prompt text) None derived_kwargs) of
        Inl e \<Rightarrow> Inr intent_error
      | Inr response \<Rightarrow> Inr (extract_json loads response intent_clarify intent_error))"

text \<open>The two operations share the extraction of lines 268 to 278 (304 to 314), written
  once as \<open>extract_json\<close> above with the two literal dictionaries as arguments.\<close>

subsection \<open>A reference model of \<^verbatim>\<open>json.loads\<close>\<close>

text \<open>
  The theorems below hold for every \<open>loads\<close>. To run the operations on concrete
  responses, \<open>json_loads\<close> follows the decoder of Python's \<^verbatim>\<open>json\<close> package
  (\<^verbatim>\<open>json/decoder.py\<close>, \<^verbatim>\<open>json/scanner.py\<close>): white space is blank, tab, line feed and
  carriage return; a number matches
  \<^verbatim>\<open>(-?(?:0|[1-9]\d*))(\.\d+)?([eE][-+]?\d+)?\<close> and is a float when it has a fraction
  or an exponent; an object becomes a dictionary, so a repeated key keeps its first
  position and its last value; text after the value is an error ("Extra data").
  Outside the model: the escape \<^verbatim>\<open>\uXXXX\<close> (rejected here) and the recursion limit (the
  fuel, twice the length of the text and two more, stands for it).
\<close>

definition dict_of_pairs :: "('k \<times> 'v) list \<Rightarrow> ('k \<times> 'v) list" where
  "dict_of_pairs pairs = foldl (\<lambda>d (k, v). dict_set d k v) [] pairs"

definition is_ws :: "char \<Rightarrow> bool" where
  "is_ws c \<longleftrightarrow> c = CHR '' '' \<or> c = CHR 0x09 \<or> c = CHR 0x0A \<or> c = CHR 0x0D"

definition skip_ws :: "string \<Rightarrow> string" where
  "skip_ws s = dropWhile is_ws s"

definition is_digit :: "char \<Rightarrow> bool" where
  "is_digit c \<longleftrightarrow> c \<in> set ''0123456789''"

definition backslash :: "char \<Rightarrow> char option" where
  \<open>backslash e =
     (if e = CHR 0x22 then Some (CHR 0x22)
      else if e = CHR 0x5C then Some (CHR 0x5C)
      else if e = CHR ''/'' then Some (CHR ''/'')
      else if e = CHR ''b'' then Some (CHR 0x08)
      else if e = CHR ''f'' then Some (CHR 0x0C)
      else if e = CHR ''n'' then Some (CHR 0x0A)
      else if e = CHR ''r'' then Some (CHR 0x0D)
      else if e = CHR ''t'' then Some (CHR 0x09)
      else None)\<close>

fun scanstring :: "string \<Rightarrow> (string \<times> string) option" where
  "scanstring [] = None"
| "scanstring (c # cs) =
     (if c = CHR 0x22 then Some ([], cs)
      else if c = CHR 0x5C then
        (case cs of
           [] \<Rightarrow> None
         | e # cs' \<Rightarrow>
             (case backslash e of
                None \<Rightarrow> None
              | Some ch \<Rightarrow>
                  (case scanstring cs' of
                     None \<Rightarrow> None
                   | Some (str, r) \<Rightarrow> Some (ch # str, r))))
      else if (of_char c :: nat) < 32 then None
      else
        (case scanstring cs of
           None \<Rightarrow> None
         | Some (str, r) \<Rightarrow> Some (c # str, r)))"

definition digits_value :: "string \<Rightarrow> int" where
  "digits_value ds = foldl (\<lambda>a c. 10 * a + (int (of_char c) - 48)) 0 ds"

definition match_integer :: "string \<Rightarrow> (string \<times> string) option" where
  "match_integer s =
     (let (sign, s1) = (case s of c # cs \<Rightarrow> if c = CHR ''-'' then (''-'', cs) else ([], s) | [] \<Rightarrow> ([], s)) in
      case s1 of
        [] \<Rightarrow> None
      | d # ds \<Rightarrow>
          if d = CHR ''0'' then Some (sign @ ''0'', ds)
          else if is_digit d then Some (sign @ takeWhile is_digit s1, dropWhile is_digit s1)
          else None)"

definition match_frac :: "string \<Rightarrow> string \<times> string" where
  "match_frac s =
     (case s of
        c # d # ds \<Rightarrow>
          if c = CHR ''.'' \<and> is_digit d
          then (c # takeWhile is_digit (d # ds), dropWhile is_digit (d # ds))
          else ([], s)
      | _ \<Rightarrow> ([], s))"

definition match_exp :: "string \<Rightarrow> string \<times> string" where
  "match_exp s =
     (case s of
        [] \<Rightarrow> ([], s)
      | c # cs \<Rightarrow>
          if c = CHR ''e'' \<or> c = CHR ''E'' then
            (let (sg, ds) = (case cs of x # xs \<Rightarrow> if x = CHR ''-'' \<or> x = CHR ''+'' then ([x], xs) else ([], cs) | [] \<Rightarrow> ([], cs)) in
             if takeWhile is_digit ds = [] then ([], s)
             else (c # sg @ takeWhile is_digit ds, dropWhile is_digit ds))
          else ([], s))"

definition match_number :: "string \<Rightarrow> (json \<times> string) option" where
  "match_number s =
     (case match_integer s of
        None \<Rightarrow> None
      | Some (integer, r1) \<Rightarrow>
          (let (frac, r2) = match_frac r1; (ex, r3) = match_exp r2 in
           if frac \<noteq> [] \<or> ex \<noteq> [] then Some (JFloat (integer @ frac @ ex), r3)
           else Some (JInt (case integer of c # ds \<Rightarrow> if c = CHR ''-'' then - digits_value ds else digits_value integer | [] \<Rightarrow> 0), r3)))"

definition starts_with :: "string \<Rightarrow> string \<Rightarrow> bool" where
  "starts_with s p \<longleftrightarrow> take (length p) s = p"

fun scan_once :: "nat \<Rightarrow> string \<Rightarrow> (json \<times> string) option"
and JSONArray :: "nat \<Rightarrow> string \<Rightarrow> (json list \<times> string) option"
and JSONObject :: "nat \<Rightarrow> string \<Rightarrow> ((string \<times> json) list \<times> string) option"
where
  "scan_once 0 s = None"
| "scan_once (Suc n) s =
     (case s of
        [] \<Rightarrow> None
      | c # cs \<Rightarrow>
          if c = CHR 0x22 then
            (case scanstring cs of None \<Rightarrow> None | Some (str, r) \<Rightarrow> Some (JStr str, r))
          else if c = CHR ''{'' then
            (case skip_ws cs of
               [] \<Rightarrow> None
             | d # r \<Rightarrow>
                 if d = CHR ''}'' then Some (JObj [], r)
                 else if d = CHR 0x22 then
                   (case JSONObject n r of
                      None \<Rightarrow> None
                    | Some (pairs, r') \<Rightarrow> Some (JObj (dict_of_pairs pairs), r'))
                 else None)
          else if c = CHR ''['' then
            (case skip_ws cs of
               [] \<Rightarrow> None
             | d # r \<Rightarrow>
                 if d = CHR '']'' then Some (JArr [], r)
                 else
                   (case JSONArray n (d # r) of
                      None \<Rightarrow> None
                    | Some (vs, r') \<Rightarrow> Some (JArr vs, r')))
          else if c = CHR ''n'' \<and> starts_with s ''null'' then Some (JNull, drop 4 s)
          else if c = CHR ''t'' \<and> starts_with s ''true'' then Some (JBool True, drop 4 s)
          else if c = CHR ''f'' \<and> starts_with s ''false'' then Some (JBool False, drop 5 s)
          else
            (case match_number s of
               Some res \<Rightarrow> Some res
             | None \<Rightarrow>
                 if c = CHR ''N'' \<and> starts_with s ''NaN'' then Some (JFloat ''NaN'', drop 3 s)
                 else if c = CHR ''I'' \<and> starts_with s ''Infinity''
                   then Some (JFloat ''Infinity'', drop 8 s)
                 else if c = CHR ''-'' \<and> starts_with s ''-Infinity''
                   then Some (JFloat ''-Infinity'', drop 9 s)
                 else None))"
| "JSONArray 0 s = None"
| "JSONArray (Suc n) s =
     (case scan_once n s of
        None \<Rightarrow> None
      | Some (v, r) \<Rightarrow>
          (case skip_ws r of
             [] \<Rightarrow> None
           | d # r' \<Rightarrow>
               if d = CHR '']'' then Some ([v], r')
               else if d = CHR '','' then
                 (case JSONArray n (skip_ws r') of
                    None \<Rightarrow> None
                  | Some (vs, r'') \<Rightarrow> Some (v # vs, r''))
               else None))"
| "JSONObject 0 s = None"
| "JSONObject (Suc n) s =
     (case scanstring s of
        None \<Rightarrow> None
      | Some (key, r) \<Rightarrow>
          (case skip_ws r of
             [] \<Rightarrow> None
           | c # r1 \<Rightarrow>
               if c \<noteq> CHR '':'' then None
               else
                 (case scan_once n (skip_ws r1) of
                    None \<Rightarrow> None
                  | Some (v, r2) \<Rightarrow>
                      (case skip_ws r2 of
                         [] \<Rightarrow> None
                       | d # r3 \<Rightarrow>
                           if d = CHR ''}'' then Some ([(key, v)], r3)
                           else if d = CHR '','' then
                             (case skip_ws r3 of
                                [] \<Rightarrow> None
                              | q # r4 \<Rightarrow>
                                  if q = CHR 0x22 then
                                    (case JSONObject n r4 of
                                       None \<Rightarrow> None
                                     | Some (ps, r5) \<Rightarrow> Some ((key, v) # ps, r5))
                                  else None)
                           else None))))"

definition json_loads :: "string \<Rightarrow> json option" where
  "json_loads s =
     (case scan_once (2 * length s + 2) (skip_ws s) of
        None \<Rightarrow> None
      | Some (v, r) \<Rightarrow> if skip_ws r = [] then Some v else None)"

subsection \<open>Example adapters and responses\<close>

text \<open>An adapter whose call always raises, and one that always returns the same text.\<close>

definition failing :: "string \<Rightarrow> adapter" where
  "failing cause = (\<lambda>prompt kw. Inl (BackendError cause))"

definition answering :: "string \<Rightarrow> adapter" where
  "answering response = (\<lambda>prompt kw. Inr response)"

definition positive_json :: string where
  \<open>positive_json =
     ''{"sentiment":"positive","confidence":0.9,"emotions":["joy"],"tone":"upbeat"}''\<close>

definition positive_record :: json where
  "positive_record =
     JObj [(''sentiment'', JStr ''positive''), (''confidence'', JFloat ''0.9''),
           (''emotions'', JArr [JStr ''joy'']), (''tone'', JStr ''upbeat'')]"

text \<open>A response holds a brace pair when a \<^verbatim>\<open>}\<close> stands somewhere after a \<^verbatim>\<open>{\<close>.\<close>

definition brace_pair :: "string \<Rightarrow> bool" where
  "brace_pair s \<longleftrightarrow> CHR ''}'' \<in> set (dropWhile (\<lambda>c. c \<noteq> CHR ''{'') s)"

text \<open>Whether the adapter registered under a name raises for a prompt.\<close>

definition provider_fails :: "AIService \<Rightarrow> string \<Rightarrow> kwargs \<Rightarrow> string \<Rightarrow> bool" where
  "provider_fails self prompt kw k =
     (case dict_get (providers self) k of None \<Rightarrow> True | Some a \<Rightarrow> isl (a prompt kw))"

text \<open>The text from the first \<^verbatim>\<open>{\<close> to the last \<^verbatim>\<open>}\<close>: what \<open>extract_json\<close> hands to
  \<open>loads\<close>.\<close>

definition json_span :: "string \<Rightarrow> string" where
  "json_span response =
     py_slice response (str_find response (CHR ''{'')) (str_rfind response (CHR ''}'') + 1)"

text \<open>Small registries, with the default provider \<^verbatim>\<open>A\<close> or \<^verbatim>\<open>B\<close>, and a request
  without a provider override.\<close>

definition registry_A :: "adapter \<Rightarrow> AIService" where
  "registry_A fa = \<lparr>providers = [(''A'', fa)], default_provider = ''A''\<rparr>"

definition registry_A_B :: "adapter \<Rightarrow> adapter \<Rightarrow> AIService" where
  "registry_A_B fa fb = \<lparr>providers = [(''A'', fa), (''B'', fb)], default_provider = ''A''\<rparr>"

definition registry_default_B :: "adapter \<Rightarrow> adapter \<Rightarrow> AIService" where
  "registry_default_B fa fb = \<lparr>providers = [(''A'', fa), (''B'', fb)], default_provider = ''B''\<rparr>"

definition example_request :: GenerateRequest where
  "example_request =
     \<lparr>req_prompt = ''Say OK'', req_provider = None, req_temperature = ''0.7'',
      req_max_tokens = 1000, req_system_prompt = None\<rparr>"

section \<open>Auxiliary facts\<close>

subsection \<open>Dictionaries and the fallback loop\<close>

lemma dict_set_nonempty: "dict_set d k v \<noteq> []"
  by (cases d) (auto split: if_splits)

lemma dict_get_dict_set: "dict_get (dict_set d k v) k = Some v"
  by (induction d) (auto simp: dict_get_def)

lemma dict_keys_dict_set:
  "dict_keys (dict_set d k v) = (if k \<in> set (dict_keys d) then dict_keys d else dict_keys d @ [k])"
  by (induction d) (force simp: dict_keys_def)+

text \<open>Item assignment keeps the keys distinct, so the registry that
  \<open>initialize_providers\<close> builds has distinct keys: the hypothesis of the theorems on
  the order of the attempts.\<close>

lemma distinct_dict_set:
  "distinct (dict_keys d) \<Longrightarrow> distinct (dict_keys (dict_set d k v))"
  by (simp add: dict_keys_dict_set)

lemma distinct_initialize_providers:
  "distinct (dict_keys (initialize_providers env backend))"
  by (simp add: initialize_providers_def Let_def dict_keys_def)

lemma dict_get_key:
  "k \<in> set (dict_keys ps) \<Longrightarrow> \<exists>a. dict_get ps k = Some a"
  by (induction ps) (auto simp: dict_keys_def dict_get_def)

lemma fallback_loop_error:
  "fst (fallback_loop ps ks pn p kw c) = Inl e \<Longrightarrow>
     e = PyException ''All AI providers failed'' (Some c)"
  by (induction ks) (auto simp: case_prod_beta split: if_splits option.splits sum.splits)

lemma fallback_loop_trace:
  assumes "set ks \<subseteq> set (dict_keys (providers self))"
  shows "snd (fallback_loop (providers self) ks pn p kw c) =
           takeWhile (provider_fails self p kw) (filter (\<lambda>k. k \<noteq> pn) ks) @
           take 1 (dropWhile (provider_fails self p kw) (filter (\<lambda>k. k \<noteq> pn) ks))"
  using assms
proof (induction ks)
  case Nil
  then show ?case by simp
next
  case (Cons k ks)
  then obtain a where a: "dict_get (providers self) k = Some a"
    using dict_get_key [of k "providers self"] by auto
  from Cons have IH: "snd (fallback_loop (providers self) ks pn p kw c) =
           takeWhile (provider_fails self p kw) (filter (\<lambda>k. k \<noteq> pn) ks) @
           take 1 (dropWhile (provider_fails self p kw) (filter (\<lambda>k. k \<noteq> pn) ks))"
    by simp
  show ?case
  proof (cases "k = pn")
    case True
    then show ?thesis using IH by simp
  next
    case False
    show ?thesis
    proof (cases "a p kw")
      case (Inl e)
      then have "provider_fails self p kw k" by (simp add: provider_fails_def a)
      then show ?thesis using False a Inl IH by (simp add: case_prod_beta)
    next
      case (Inr r)
      then have "\<not> provider_fails self p kw k" by (simp add: provider_fails_def a)
      then show ?thesis using False a Inr by simp
    qed
  qed
qed

lemma fallback_loop_result:
  assumes "set ks \<subseteq> set (dict_keys (providers self))"
  shows "fst (fallback_loop (providers self) ks pn p kw c) =
           (case dropWhile (provider_fails self p kw) (filter (\<lambda>k. k \<noteq> pn) ks) of
              [] \<Rightarrow> Inl (PyException ''All AI providers failed'' (Some c))
            | k # _ \<Rightarrow> Inr (projr (the (dict_get (providers self) k) p kw)))"
  using assms
proof (induction ks)
  case Nil
  then show ?case by simp
next
  case (Cons k ks)
  then obtain a where a: "dict_get (providers self) k = Some a"
    using dict_get_key [of k "providers self"] by auto
  from Cons have IH: "fst (fallback_loop (providers self) ks pn p kw c) =
           (case dropWhile (provider_fails self p kw) (filter (\<lambda>k. k \<noteq> pn) ks) of
              [] \<Rightarrow> Inl (PyException ''All AI providers failed'' (Some c))
            | k # _ \<Rightarrow> Inr (projr (the (dict_get (providers self) k) p kw)))"
    by simp
  show ?case
  proof (cases "k = pn")
    case True
    then show ?thesis using IH by simp
  next
    case False
    show ?thesis
    proof (cases "a p kw")
      case (Inl e)
      then have "provider_fails self p kw k" by (simp add: provider_fails_def a)
      then show ?thesis using False a Inl IH by (simp add: case_prod_beta)
    next
      case (Inr r)
      then have "\<not> provider_fails self p kw k" by (simp add: provider_fails_def a)
      then show ?thesis using False a Inr by simp
    qed
  qed
qed

lemma resolve_provider_key:
  "resolve_provider self provider = Inr chosen \<Longrightarrow> chosen \<in> set (dict_keys (providers self))"
  by (cases "providers self") (auto simp: resolve_provider_def Let_def dict_keys_def split: if_splits)

lemma try_providers_raised:
  assumes "dict_get (providers self) chosen = Some a" and "a p kw = Inl e"
  shows "try_providers self chosen p kw =
           (fst (fallback_loop (providers self) (dict_keys (providers self)) chosen p kw
                   (AdapterException e)),
            chosen # snd (fallback_loop (providers self) (dict_keys (providers self)) chosen p kw
                   (AdapterException e)))"
  using assms by (simp add: try_providers_def case_prod_beta)

lemma try_providers_returned:
  assumes "dict_get (providers self) chosen = Some a" and "a p kw = Inr r"
  shows "try_providers self chosen p kw = (Inr r, [chosen])"
  using assms by (simp add: try_providers_def)

lemma provider_fails_raised:
  assumes "chosen \<in> set (dict_keys (providers self))" and "provider_fails self p kw chosen"
  shows "\<exists>a e. dict_get (providers self) chosen = Some a \<and> a p kw = Inl e"
proof -
  obtain a where a: "dict_get (providers self) chosen = Some a"
    using dict_get_key [OF assms(1)] by auto
  with assms(2) obtain e where "a p kw = Inl e"
    by (cases "a p kw") (auto simp: provider_fails_def)
  with a show ?thesis by blast
qed

lemma try_providers_first:
  assumes "chosen \<in> set (dict_keys (providers self))"
  shows "\<exists>rest. snd (try_providers self chosen p kw) = chosen # rest"
proof -
  obtain a where a: "dict_get (providers self) chosen = Some a"
    using dict_get_key [OF assms(1)] by auto
  then show ?thesis by (cases "a p kw") (auto simp add: try_providers_def case_prod_beta)
qed

lemma try_providers_error:
  "fst (try_providers self chosen p kw) = Inl e \<Longrightarrow>
     \<exists>c. e = PyException ''All AI providers failed'' (Some c)"
  by (auto simp: try_providers_def case_prod_beta split: option.splits sum.splits
      dest: fallback_loop_error)

lemma filter_neq_absent: "x \<notin> set xs \<Longrightarrow> filter (\<lambda>k. k \<noteq> x) xs = xs"
  by (induction xs) auto

lemma length_filter_neq:
  "distinct xs \<Longrightarrow> x \<in> set xs \<Longrightarrow> Suc (length (filter (\<lambda>k. k \<noteq> x) xs)) = length xs"
  by (induction xs) (auto simp: filter_neq_absent)

lemma resolve_provider_nonempty:
  "providers self \<noteq> [] \<Longrightarrow> \<exists>chosen. resolve_provider self provider = Inr chosen"
  by (simp add: resolve_provider_def Let_def)

lemma generate_error:
  "resolve_provider self provider = Inr chosen \<Longrightarrow>
   fst (generate self prompt provider kw) = Inl e \<Longrightarrow>
     \<exists>c. e = PyException ''All AI providers failed'' (Some c)"
  using try_providers_error [of self chosen prompt kw e] by (simp add: generate_def)

subsection \<open>Searching and slicing\<close>

lemma str_find_ge: "- 1 \<le> str_find s c"
  by (induction s) (auto simp: Let_def)

lemma str_find_absent: "str_find s c = - 1 \<longleftrightarrow> c \<notin> set s"
proof (induction s)
  case Nil
  then show ?case by simp
next
  case (Cons x xs)
  then show ?case using str_find_ge [of xs c] by (auto simp: Let_def)
qed

lemma str_find_append: "c \<notin> set pre \<Longrightarrow> str_find (pre @ c # rest) c = int (length pre)"
  by (induction pre) (auto simp: Let_def)

lemma str_rfind_ge: "- 1 \<le> str_rfind s c"
  by (induction s) (auto simp: Let_def)

lemma str_rfind_absent: "str_rfind s c = - 1 \<longleftrightarrow> c \<notin> set s"
proof (induction s)
  case Nil
  then show ?case by simp
next
  case (Cons x xs)
  then show ?case using str_rfind_ge [of xs c] by (auto simp: Let_def)
qed

lemma str_rfind_append: "c \<notin> set post \<Longrightarrow> str_rfind (pre @ c # post) c = int (length pre)"
  by (induction pre) (auto simp: Let_def str_rfind_absent)

lemma py_slice_middle:
  "py_slice (pre @ mid @ post) (int (length pre)) (int (length pre) + int (length mid)) = mid"
  by (simp add: py_slice_def slice_index_def Let_def nat_add_distrib)

lemma brace_pair_Cons:
  "brace_pair (x # xs) \<longleftrightarrow> (if x = CHR ''{'' then CHR ''}'' \<in> set xs else brace_pair xs)"
  by (simp add: brace_pair_def)

lemma brace_pair_iff:
  "brace_pair s \<longleftrightarrow> (\<exists>a b c. s = a @ CHR ''{'' # b @ CHR ''}'' # c)"
proof
  assume "brace_pair s"
  then show "\<exists>a b c. s = a @ CHR ''{'' # b @ CHR ''}'' # c"
  proof (induction s)
    case Nil
    then show ?case by (simp add: brace_pair_def)
  next
    case (Cons x xs)
    show ?case
    proof (cases "x = CHR ''{''")
      case True
      with Cons.prems have "CHR ''}'' \<in> set xs" by (simp add: brace_pair_Cons)
      then obtain b c where "xs = b @ CHR ''}'' # c" by (meson split_list)
      with True have "x # xs = [] @ CHR ''{'' # b @ CHR ''}'' # c" by simp
      then show ?thesis by blast
    next
      case False
      with Cons.prems have "brace_pair xs" by (simp add: brace_pair_Cons)
      then obtain a b c where "xs = a @ CHR ''{'' # b @ CHR ''}'' # c"
        using Cons.IH by blast
      then have "x # xs = (x # a) @ CHR ''{'' # b @ CHR ''}'' # c" by simp
      then show ?thesis by blast
    qed
  qed
next
  assume "\<exists>a b c. s = a @ CHR ''{'' # b @ CHR ''}'' # c"
  then obtain a b c where s: "s = a @ CHR ''{'' # b @ CHR ''}'' # c" by blast
  show "brace_pair s" unfolding s
    by (induction a) (auto simp: brace_pair_Cons)
qed

lemma brace_pair_find:
  "brace_pair s \<longleftrightarrow>
     str_find s (CHR ''{'') \<noteq> - 1 \<and> str_find s (CHR ''{'') < str_rfind s (CHR ''}'') + 1"
proof (induction s)
  case Nil
  then show ?case by (simp add: brace_pair_def)
next
  case (Cons x xs)
  show ?case
  proof (cases "x = CHR ''{''")
    case True
    have "CHR ''}'' \<in> set xs \<longleftrightarrow> str_rfind xs (CHR ''}'') \<noteq> - 1"
      by (simp add: str_rfind_absent)
    then show ?thesis
      using True str_rfind_ge [of xs "CHR ''}''"] by (auto simp: brace_pair_Cons Let_def)
  next
    case False
    then show ?thesis
      using Cons.IH str_find_ge [of xs "CHR ''{''"] str_rfind_ge [of xs "CHR ''}''"]
      by (auto simp: brace_pair_Cons Let_def)
  qed
qed

lemma extract_json_cases:
  "extract_json loads response no_json on_error =
     (if brace_pair response
      then (case loads (json_span response) of Some v \<Rightarrow> v | None \<Rightarrow> on_error)
      else no_json)"
  by (auto simp: extract_json_def Let_def json_span_def brace_pair_find)

lemma json_span_embedded:
  assumes "CHR ''{'' \<notin> set pre" and "CHR ''}'' \<notin> set post"
  shows "json_span (pre @ (CHR ''{'' # mid @ [CHR ''}'']) @ post) = CHR ''{'' # mid @ [CHR ''}'']"
proof -
  have f: "str_find (pre @ CHR ''{'' # mid @ CHR ''}'' # post) (CHR ''{'') = int (length pre)"
    using assms(1) by (rule str_find_append)
  have "str_rfind ((pre @ CHR ''{'' # mid) @ CHR ''}'' # post) (CHR ''}'') =
          int (length (pre @ CHR ''{'' # mid))"
    using assms(2) by (rule str_rfind_append)
  then have r: "str_rfind (pre @ CHR ''{'' # mid @ CHR ''}'' # post) (CHR ''}'') + 1 =
          int (length pre) + int (length (CHR ''{'' # mid @ [CHR ''}'']))"
    by simp
  show ?thesis
    using py_slice_middle [of pre "CHR ''{'' # mid @ [CHR ''}'']" post] f r
    by (simp add: json_span_def algebra_simps)
qed

lemma json_loads_positive_json: "json_loads positive_json = Some positive_record"
  unfolding positive_json_def positive_record_def by code_simp

section \<open>The router\<close>

text \<open>
  Claim C1, as stated, at the registry \<^verbatim>\<open>A\<close> (fails), \<^verbatim>\<open>B\<close> (answers) with default \<^verbatim>\<open>A\<close>
  and a request without override: the route returns the text of \<^verbatim>\<open>B\<close>, the adapters
  \<^verbatim>\<open>A\<close> and \<^verbatim>\<open>B\<close> were invoked in that order, and the \<^verbatim>\<open>provider\<close> field of the result
  is \<^verbatim>\<open>A\<close>, not \<^verbatim>\<open>B\<close>.
\<close>

theorem generate_text_provider_not_actual:
  "generate_text (registry_A_B (failing ''timeout'') (answering ''OK'')) example_request =
     (Inr \<lparr>resp_response = ''OK'', resp_provider = ''A'', resp_model = ''auto''\<rparr>, [''A'', ''B'']) \<and>
   ''A'' \<noteq> ''B''"
  by (simp add: generate_text_def generate_def resolve_provider_def try_providers_def
      registry_A_B_def example_request_def py_or_def dict_keys_def dict_get_def
      failing_def answering_def)

text \<open>
  Claim C1, amended. For a registry with the two providers \<open>A\<close> and \<open>B\<close> in that
  order, where the adapter of \<open>A\<close> raises and the adapter of \<open>B\<close> returns a text, with
  default provider \<open>A\<close> and no override in the request, \<open>generate_text\<close> returns a
  successful result with the text of \<open>B\<close> whose \<^verbatim>\<open>provider\<close> field is the requested
  name \<open>A\<close> (\<^verbatim>\<open>request.provider or ai.default_provider\<close>); the adapters invoked are
  \<open>A\<close>, then \<open>B\<close>.
\<close>

theorem generate_text_reports_requested_provider:
  assumes "providers ai = [(A, fa), (B, fb)]"
      and "A \<noteq> B"
      and "default_provider ai = A"
      and "req_provider request = None"
      and "fa (req_prompt request) (request_kwargs request) = Inl e"
      and "fb (req_prompt request) (request_kwargs request) = Inr text"
  shows "generate_text ai request =
           (Inr \<lparr>resp_response = text, resp_provider = A, resp_model = ''auto''\<rparr>, [A, B])"
  using assms
  by (simp add: generate_text_def generate_def resolve_provider_def try_providers_def
      py_or_def dict_keys_def dict_get_def)

theorem generate_text_reports_requested_provider_witness:
  "providers (registry_A_B (failing ''timeout'') (answering ''OK'')) =
     [(''A'', failing ''timeout''), (''B'', answering ''OK'')] \<and>
   ''A'' \<noteq> ''B'' \<and>
   default_provider (registry_A_B (failing ''timeout'') (answering ''OK'')) = ''A'' \<and>
   req_provider example_request = None \<and>
   failing ''timeout'' (req_prompt example_request) (request_kwargs example_request) =
     Inl (BackendError ''timeout'') \<and>
   answering ''OK'' (req_prompt example_request) (request_kwargs example_request) = Inr ''OK'' \<and>
   generate_text (registry_A_B (failing ''timeout'') (answering ''OK'')) example_request =
     (Inr \<lparr>resp_response = ''OK'', resp_provider = ''A'', resp_model = ''auto''\<rparr>, [''A'', ''B''])"
proof -
  let ?s = "registry_A_B (failing ''timeout'') (answering ''OK'')"
  have 1: "providers ?s = [(''A'', failing ''timeout''), (''B'', answering ''OK'')]"
    by (simp add: registry_A_B_def)
  have 2: "''A'' \<noteq> ''B''" by simp
  have 3: "default_provider ?s = ''A''" by (simp add: registry_A_B_def)
  have 4: "req_provider example_request = None" by (simp add: example_request_def)
  have 5: "failing ''timeout'' (req_prompt example_request) (request_kwargs example_request) =
     Inl (BackendError ''timeout'')" by (simp add: failing_def)
  have 6: "answering ''OK'' (req_prompt example_request) (request_kwargs example_request) = Inr ''OK''"
    by (simp add: answering_def)
  show ?thesis
    using 1 2 3 4 5 6 generate_text_reports_requested_provider [OF 1 2 3 4 5 6] by simp
qed

text \<open>
  Claim C3, as stated, at the registry \<^verbatim>\<open>A\<close>, \<^verbatim>\<open>B\<close> where both adapters raise, so
  \<open>N = 2\<close>: the exception raised holds the message and, as its context, the exception
  of \<^verbatim>\<open>A\<close>, the provider attempted first. The exception of \<^verbatim>\<open>B\<close> is in no part of
  it: another cause for \<^verbatim>\<open>B\<close>, or a registry without \<^verbatim>\<open>B\<close>, gives the same exception.
  So it does not carry two failure records, one per provider.
\<close>

theorem all_providers_failed_no_records:
  "generate (registry_A_B (failing ''timeout'') (failing ''rate limited'')) ''hi'' None [] =
     (Inl (PyException ''All AI providers failed''
             (Some (AdapterException (BackendError ''timeout'')))),
      [''A'', ''B'']) \<and>
   fst (generate (registry_A_B (failing ''timeout'') (failing ''rate limited'')) ''hi'' None []) =
     fst (generate (registry_A_B (failing ''timeout'') (failing ''auth'')) ''hi'' None []) \<and>
   fst (generate (registry_A_B (failing ''timeout'') (failing ''rate limited'')) ''hi'' None []) =
     fst (generate (registry_A (failing ''timeout'')) ''hi'' None [])"
  by (simp add: generate_def resolve_provider_def try_providers_def registry_A_def
      registry_A_B_def py_or_def dict_keys_def dict_get_def failing_def)

text \<open>
  Claim C3, amended. For every registry with \<open>N \<ge> 1\<close> providers, if the adapter of
  every registered provider raises, \<open>generate\<close> raises the exception
  \<^verbatim>\<open>Exception("All AI providers failed")\<close> after exactly \<open>N\<close> adapter calls, one per
  provider, in attempt order: the chosen provider first, then the others in
  registration order. The exception does not carry \<open>N\<close> failure records: it holds the
  message and, as its implicit context, the exception of the provider attempted first.
\<close>

theorem all_providers_failed:
  assumes "distinct (dict_keys (providers self))"
      and "providers self \<noteq> []"
      and "\<forall>k \<in> set (dict_keys (providers self)). provider_fails self prompt kw k"
  shows "\<exists>chosen a e.
           resolve_provider self provider = Inr chosen \<and>
           dict_get (providers self) chosen = Some a \<and>
           a prompt kw = Inl e \<and>
           generate self prompt provider kw =
             (Inl (PyException ''All AI providers failed'' (Some (AdapterException e))),
              chosen # filter (\<lambda>k. k \<noteq> chosen) (dict_keys (providers self))) \<and>
           length (snd (generate self prompt provider kw)) = length (providers self) \<and>
           set (snd (generate self prompt provider kw)) = set (dict_keys (providers self)) \<and>
           distinct (snd (generate self prompt provider kw))"
proof -
  let ?keys = "dict_keys (providers self)"
  obtain chosen where ch: "resolve_provider self provider = Inr chosen"
    using resolve_provider_nonempty [OF assms(2)] by blast
  let ?others = "filter (\<lambda>k. k \<noteq> chosen) ?keys"
  have key: "chosen \<in> set ?keys" using ch by (rule resolve_provider_key)
  have fails: "provider_fails self prompt kw chosen" using assms(3) key by blast
  obtain a e where a: "dict_get (providers self) chosen = Some a" and e: "a prompt kw = Inl e"
    using provider_fails_raised [OF key fails] by blast
  let ?loop = "fallback_loop (providers self) ?keys chosen prompt kw (AdapterException e)"
  have allf: "\<forall>k \<in> set ?others. provider_fails self prompt kw k" using assms(3) by simp
  then have tw: "takeWhile (provider_fails self prompt kw) ?others = ?others"
    and dw: "dropWhile (provider_fails self prompt kw) ?others = []"
    by (simp_all del: set_filter)
  have tr: "snd ?loop = ?others"
    using fallback_loop_trace [of ?keys self chosen prompt kw "AdapterException e"] tw dw
    by simp
  have res: "fst ?loop = Inl (PyException ''All AI providers failed'' (Some (AdapterException e)))"
    using fallback_loop_result [of ?keys self chosen prompt kw "AdapterException e"] dw
    by simp
  have gen: "generate self prompt provider kw =
               (Inl (PyException ''All AI providers failed'' (Some (AdapterException e))),
                chosen # ?others)"
    using ch try_providers_raised [OF a e] tr res by (simp add: generate_def)
  have len: "length (chosen # ?others) = length (providers self)"
    using length_filter_neq [OF assms(1) key] by (simp add: dict_keys_def)
  have st: "set (chosen # ?others) = set ?keys" using key by auto
  have di: "distinct (chosen # ?others)" using assms(1) by simp
  show ?thesis
    using ch a e gen len st di by (intro exI [of _ chosen] exI [of _ a] exI [of _ e]) simp
qed

theorem all_providers_failed_witness:
  "distinct (dict_keys (providers (registry_A_B (failing ''timeout'') (failing ''rate limited'')))) \<and>
   providers (registry_A_B (failing ''timeout'') (failing ''rate limited'')) \<noteq> [] \<and>
   provider_fails (registry_A_B (failing ''timeout'') (failing ''rate limited'')) ''hi'' [] ''A'' \<and>
   provider_fails (registry_A_B (failing ''timeout'') (failing ''rate limited'')) ''hi'' [] ''B'' \<and>
   generate (registry_A_B (failing ''timeout'') (failing ''rate limited'')) ''hi'' None [] =
     (Inl (PyException ''All AI providers failed''
             (Some (AdapterException (BackendError ''timeout'')))),
      [''A'', ''B''])"
proof -
  let ?s = "registry_A_B (failing ''timeout'') (failing ''rate limited'')"
  have d: "distinct (dict_keys (providers ?s))" by (simp add: registry_A_B_def dict_keys_def)
  have n: "providers ?s \<noteq> []" by (simp add: registry_A_B_def)
  have fa: "provider_fails ?s ''hi'' [] ''A''"
    by (simp add: registry_A_B_def provider_fails_def dict_get_def failing_def)
  have fb: "provider_fails ?s ''hi'' [] ''B''"
    by (simp add: registry_A_B_def provider_fails_def dict_get_def failing_def)
  have f: "\<forall>k \<in> set (dict_keys (providers ?s)). provider_fails ?s ''hi'' [] k"
    using fa fb by (simp add: registry_A_B_def dict_keys_def)
  have r: "resolve_provider ?s None = Inr ''A''"
    by (simp add: registry_A_B_def resolve_provider_def py_or_def dict_keys_def)
  have g: "dict_get (providers ?s) ''A'' = Some (failing ''timeout'')"
    by (simp add: registry_A_B_def dict_get_def)
  have o: "failing ''timeout'' ''hi'' [] = Inl (BackendError ''timeout'')"
    by (simp add: failing_def)
  have k: "dict_keys (providers ?s) = [''A'', ''B'']"
    by (simp add: registry_A_B_def dict_keys_def)
  have "generate ?s ''hi'' None [] =
     (Inl (PyException ''All AI providers failed''
             (Some (AdapterException (BackendError ''timeout'')))),
      [''A'', ''B''])"
    using all_providers_failed [OF d n f, of None] r g o k by auto
  with d n fa fb show ?thesis by simp
qed

text \<open>
  Claim C4. When the adapter of the chosen provider raises, the loop passes over the
  chosen provider and calls the other registered providers in registration order, up
  to and with the first whose adapter returns: the providers attempted after the
  chosen one are a prefix of the other keys in registration order, the chosen provider
  is not among them, and no provider is attempted twice in the call.
\<close>

theorem fallback_order:
  assumes "distinct (dict_keys (providers self))"
      and "resolve_provider self provider = Inr chosen"
      and "provider_fails self prompt kw chosen"
  shows "\<exists>attempted.
           snd (generate self prompt provider kw) = chosen # attempted \<and>
           attempted =
             takeWhile (provider_fails self prompt kw)
               (filter (\<lambda>k. k \<noteq> chosen) (dict_keys (providers self))) @
             take 1 (dropWhile (provider_fails self prompt kw)
               (filter (\<lambda>k. k \<noteq> chosen) (dict_keys (providers self)))) \<and>
           prefix attempted (filter (\<lambda>k. k \<noteq> chosen) (dict_keys (providers self))) \<and>
           chosen \<notin> set attempted \<and>
           distinct (snd (generate self prompt provider kw))"
proof -
  let ?others = "filter (\<lambda>k. k \<noteq> chosen) (dict_keys (providers self))"
  let ?f = "provider_fails self prompt kw"
  let ?att = "takeWhile ?f ?others @ take 1 (dropWhile ?f ?others)"
  have key: "chosen \<in> set (dict_keys (providers self))"
    using assms(2) by (rule resolve_provider_key)
  obtain a e where a: "dict_get (providers self) chosen = Some a" and e: "a prompt kw = Inl e"
    using provider_fails_raised [OF key assms(3)] by blast
  have tr: "snd (generate self prompt provider kw) = chosen # ?att"
    using assms(2) try_providers_raised [OF a e]
      fallback_loop_trace [of "dict_keys (providers self)" self chosen prompt kw
        "AdapterException e"]
    by (simp add: generate_def)
  have "?others = takeWhile ?f ?others @ dropWhile ?f ?others" by simp
  also have "\<dots> = ?att @ drop 1 (dropWhile ?f ?others)"
    by (metis append.assoc append_take_drop_id)
  finally have split: "?others = ?att @ drop 1 (dropWhile ?f ?others)" .
  then have pre: "prefix ?att ?others" by (metis prefixI)
  have sub: "set ?att \<subseteq> set ?others" using pre by (rule set_mono_prefix)
  then have notin: "chosen \<notin> set ?att" by auto
  have "distinct ?others" using assms(1) by simp
  then have "distinct ?att" using split by (metis distinct_append)
  with notin tr pre show ?thesis by simp
qed


theorem fallback_order_witness:
  "distinct (dict_keys (providers (registry_A_B (failing ''timeout'') (answering ''OK'')))) \<and>
   resolve_provider (registry_A_B (failing ''timeout'') (answering ''OK'')) None = Inr ''A'' \<and>
   provider_fails (registry_A_B (failing ''timeout'') (answering ''OK'')) ''hi'' [] ''A'' \<and>
   snd (generate (registry_A_B (failing ''timeout'') (answering ''OK'')) ''hi'' None []) =
     [''A'', ''B'']"
proof -
  let ?s = "registry_A_B (failing ''timeout'') (answering ''OK'')"
  have d: "distinct (dict_keys (providers ?s))" by (simp add: registry_A_B_def dict_keys_def)
  have r: "resolve_provider ?s None = Inr ''A''"
    by (simp add: registry_A_B_def resolve_provider_def py_or_def dict_keys_def)
  have fa: "provider_fails ?s ''hi'' [] ''A''"
    by (simp add: registry_A_B_def provider_fails_def dict_get_def failing_def)
  have nb: "\<not> provider_fails ?s ''hi'' [] ''B''"
    by (simp add: registry_A_B_def provider_fails_def dict_get_def answering_def)
  have k: "dict_keys (providers ?s) = [''A'', ''B'']" by (simp add: registry_A_B_def dict_keys_def)
  have "snd (generate ?s ''hi'' None []) = [''A'', ''B'']"
    using fallback_order [OF d r fa] nb by (auto simp: k)
  with d r fa show ?thesis by simp
qed

text \<open>
  Claim C5. With no provider override, if the default provider's name is registered
  (so the registry holds at least one provider), the adapter registered under the
  default name is the first one invoked: it heads the trace of the call; when it
  returns a text, that text is the result and no other adapter is invoked; when it
  raises, the other providers are attempted after it, with its exception as the one
  being handled.
\<close>

theorem default_provider_first:
  assumes "default_provider self \<in> set (dict_keys (providers self))"
  shows "\<exists>a. dict_get (providers self) (default_provider self) = Some a \<and>
           (\<exists>rest. snd (generate self prompt None kw) = default_provider self # rest) \<and>
           (case a prompt kw of
              Inr r \<Rightarrow> generate self prompt None kw = (Inr r, [default_provider self])
            | Inl e \<Rightarrow>
                generate self prompt None kw =
                  (fst (fallback_loop (providers self) (dict_keys (providers self))
                          (default_provider self) prompt kw (AdapterException e)),
                   default_provider self #
                     snd (fallback_loop (providers self) (dict_keys (providers self))
                            (default_provider self) prompt kw (AdapterException e))))"
proof -
  obtain a where a: "dict_get (providers self) (default_provider self) = Some a"
    using dict_get_key [OF assms] by blast
  have r: "resolve_provider self None = Inr (default_provider self)"
    using assms by (simp add: resolve_provider_def py_or_def)
  then have g: "generate self prompt None kw =
                  try_providers self (default_provider self) prompt kw"
    by (simp add: generate_def)
  have hd: "\<exists>rest. snd (generate self prompt None kw) = default_provider self # rest"
    using try_providers_first [OF assms, of prompt kw] g by simp
  have out: "(case a prompt kw of
              Inr r \<Rightarrow> generate self prompt None kw = (Inr r, [default_provider self])
            | Inl e \<Rightarrow>
                generate self prompt None kw =
                  (fst (fallback_loop (providers self) (dict_keys (providers self))
                          (default_provider self) prompt kw (AdapterException e)),
                   default_provider self #
                     snd (fallback_loop (providers self) (dict_keys (providers self))
                            (default_provider self) prompt kw (AdapterException e))))"
  proof (cases "a prompt kw")
    case (Inl e)
    then show ?thesis using g try_providers_raised [OF a Inl] by simp
  next
    case (Inr r)
    then show ?thesis using g try_providers_returned [OF a Inr] by simp
  qed
  show ?thesis using a hd out by blast
qed

theorem default_provider_first_witness:
  "default_provider (registry_default_B (answering ''one'') (answering ''two''))
     \<in> set (dict_keys (providers (registry_default_B (answering ''one'') (answering ''two'')))) \<and>
   generate (registry_default_B (answering ''one'') (answering ''two'')) ''hi'' None [] =
     (Inr ''two'', [''B'']) \<and>
   default_provider (registry_default_B (answering ''one'') (failing ''timeout''))
     \<in> set (dict_keys (providers (registry_default_B (answering ''one'') (failing ''timeout'')))) \<and>
   generate (registry_default_B (answering ''one'') (failing ''timeout'')) ''hi'' None [] =
     (Inr ''one'', [''B'', ''A''])"
proof -
  let ?s = "registry_default_B (answering ''one'') (answering ''two'')"
  let ?t = "registry_default_B (answering ''one'') (failing ''timeout'')"
  have hs: "default_provider ?s \<in> set (dict_keys (providers ?s))"
    by (simp add: registry_default_B_def dict_keys_def)
  have ht: "default_provider ?t \<in> set (dict_keys (providers ?t))"
    by (simp add: registry_default_B_def dict_keys_def)
  have ds: "dict_get (providers ?s) (default_provider ?s) = Some (answering ''two'')"
    by (simp add: registry_default_B_def dict_get_def)
  have dt: "dict_get (providers ?t) (default_provider ?t) = Some (failing ''timeout'')"
    by (simp add: registry_default_B_def dict_get_def)
  have os: "answering ''two'' ''hi'' [] = Inr ''two''" by (simp add: answering_def)
  have ot: "failing ''timeout'' ''hi'' [] = Inl (BackendError ''timeout'')"
    by (simp add: failing_def)
  have lt: "fallback_loop (providers ?t) (dict_keys (providers ?t)) (default_provider ?t) ''hi'' []
              (AdapterException (BackendError ''timeout'')) = (Inr ''one'', [''A''])"
    by (simp add: registry_default_B_def dict_keys_def dict_get_def answering_def)
  have gs: "generate ?s ''hi'' None [] = (Inr ''two'', [''B''])"
    using default_provider_first [OF hs, of "''hi''" "[]"] ds os
    by (auto simp: registry_default_B_def)
  have gt: "generate ?t ''hi'' None [] = (Inr ''one'', [''B'', ''A''])"
    using default_provider_first [OF ht, of "''hi''" "[]"] dt ot lt
    by (auto simp: registry_default_B_def)
  show ?thesis using hs ht gs gt by simp
qed



text \<open>
  Claim C7. With an empty provider dictionary every call of \<open>generate\<close> raises the
  \<^verbatim>\<open>ValueError\<close> "No AI providers available" (the spec's \<^verbatim>\<open>NoProvidersAvailable\<close>) at once,
  and no adapter is invoked: the trace of adapter calls is empty.
\<close>

theorem generate_empty_registry:
  assumes "providers self = []"
  shows "generate self prompt provider kw =
           (Inl (ValueError ''No AI providers available''), [])"
  using assms by (simp add: generate_def resolve_provider_def dict_keys_def)

theorem generate_empty_registry_witness:
  "providers \<lparr>providers = [], default_provider = ''openai''\<rparr> = [] \<and>
   generate \<lparr>providers = [], default_provider = ''openai''\<rparr> ''Say OK'' (Some ''groq'')
       [(''max_tokens'', KwInt 10)] =
     (Inl (ValueError ''No AI providers available''), [])"
  using generate_empty_registry
    [of "\<lparr>providers = [], default_provider = ''openai''\<rparr>" "''Say OK''" "Some ''groq''"
        "[(''max_tokens'', KwInt 10)]"]
  by simp


text \<open>
  Claim C10. Whatever the environment holds, the service built by \<open>AIService_init\<close>
  has the provider \<^verbatim>\<open>ollama\<close> registered, so its registry is not empty, the resolution
  of the provider always yields a name and no call of \<open>generate\<close> raises the
  \<^verbatim>\<open>ValueError\<close> of the empty registry.
\<close>

theorem ollama_always_registered:
  "dict_get (providers (AIService_init env backend)) ''ollama'' = Some (backend ''ollama'') \<and>
   providers (AIService_init env backend) \<noteq> [] \<and>
   (\<exists>name. resolve_provider (AIService_init env backend) provider = Inr name) \<and>
   (\<forall>msg. fst (generate (AIService_init env backend) prompt provider kw) \<noteq> Inl (ValueError msg))"
proof -
  let ?s = "AIService_init env backend"
  have g: "dict_get (providers ?s) ''ollama'' = Some (backend ''ollama'')"
    by (simp add: AIService_init_def initialize_providers_def Let_def dict_get_dict_set)
  have n: "providers ?s \<noteq> []"
    by (simp add: AIService_init_def initialize_providers_def Let_def dict_set_nonempty)
  obtain name where r: "resolve_provider ?s provider = Inr name"
    using resolve_provider_nonempty [OF n] by blast
  have e: "\<forall>msg. fst (generate ?s prompt provider kw) \<noteq> Inl (ValueError msg)"
    using generate_error [OF r, of prompt kw] by auto
  show ?thesis using g n r e by blast
qed

section \<open>The derived operations\<close>

text \<open>
  Claim C2, as stated, at a registry whose only adapter times out: the router call of
  each derived operation raises \<^verbatim>\<open>Exception("All AI providers failed")\<close> (with the
  time-out as its context), and the operation does not raise it; it returns the
  dictionary of its handler.
\<close>

theorem router_failure_not_propagated:
  "fst (generate (registry_A (failing ''timeout'')) (sentiment_prompt ''great'') None derived_kwargs) =
     Inl (PyException ''All AI providers failed''
           (Some (AdapterException (BackendError ''timeout'')))) \<and>
   analyze_sentiment json_loads (registry_A (failing ''timeout'')) ''great'' = Inr sentiment_error \<and>
   analyze_sentiment json_loads (registry_A (failing ''timeout'')) ''great'' \<noteq>
     Inl (PyException ''All AI providers failed''
           (Some (AdapterException (BackendError ''timeout'')))) \<and>
   fst (generate (registry_A (failing ''timeout'')) (intent_prompt ''great'') None derived_kwargs) =
     Inl (PyException ''All AI providers failed''
           (Some (AdapterException (BackendError ''timeout'')))) \<and>
   extract_intent json_loads (registry_A (failing ''timeout'')) ''great'' = Inr intent_error \<and>
   extract_intent json_loads (registry_A (failing ''timeout'')) ''great'' \<noteq>
     Inl (PyException ''All AI providers failed''
           (Some (AdapterException (BackendError ''timeout''))))"
  by (simp add: analyze_sentiment_def extract_intent_def generate_def resolve_provider_def
      try_providers_def registry_A_def py_or_def dict_keys_def dict_get_def failing_def)

text \<open>
  Claim C2, amended. For every input text, if the router call made by a derived
  operation fails, the failure does not reach the caller: the handler
  \<^verbatim>\<open>except Exception\<close> turns it into the operation's error record (sentiment
  \<^verbatim>\<open>neutral\<close>, confidence 0.0, no emotions, tone \<^verbatim>\<open>error\<close>; intent \<^verbatim>\<open>unknown\<close>, confidence
  0.0, no entities, action \<^verbatim>\<open>error\<close>). A parse failure of the text between the first
  \<^verbatim>\<open>{\<close> and the last \<^verbatim>\<open>}\<close> is converted into that same record.
\<close>

theorem derived_operations_swallow_failures:
  "(fst (generate self (sentiment_prompt text) None derived_kwargs) = Inl e1 \<longrightarrow>
      analyze_sentiment loads self text = Inr sentiment_error) \<and>
   (fst (generate self (intent_prompt text) None derived_kwargs) = Inl e2 \<longrightarrow>
      extract_intent loads self text = Inr intent_error) \<and>
   (fst (generate self (sentiment_prompt text) None derived_kwargs) = Inr r1 \<and>
    brace_pair r1 \<and> loads (json_span r1) = None \<longrightarrow>
      analyze_sentiment loads self text = Inr sentiment_error) \<and>
   (fst (generate self (intent_prompt text) None derived_kwargs) = Inr r2 \<and>
    brace_pair r2 \<and> loads (json_span r2) = None \<longrightarrow>
      extract_intent loads self text = Inr intent_error)"
  by (simp add: analyze_sentiment_def extract_intent_def extract_json_cases)

theorem derived_operations_swallow_failures_witness:
  "fst (generate (registry_A (failing ''timeout'')) (sentiment_prompt ''great'') None derived_kwargs) =
     Inl (PyException ''All AI providers failed''
           (Some (AdapterException (BackendError ''timeout'')))) \<and>
   analyze_sentiment json_loads (registry_A (failing ''timeout'')) ''great'' = Inr sentiment_error \<and>
   fst (generate (registry_A (failing ''timeout'')) (intent_prompt ''great'') None derived_kwargs) =
     Inl (PyException ''All AI providers failed''
           (Some (AdapterException (BackendError ''timeout'')))) \<and>
   extract_intent json_loads (registry_A (failing ''timeout'')) ''great'' = Inr intent_error \<and>
   fst (generate (registry_A (answering ''{oops}'')) (sentiment_prompt ''great'') None derived_kwargs) =
     Inr ''{oops}'' \<and>
   fst (generate (registry_A (answering ''{oops}'')) (intent_prompt ''great'') None derived_kwargs) =
     Inr ''{oops}'' \<and>
   brace_pair ''{oops}'' \<and> json_loads (json_span ''{oops}'') = None \<and>
   analyze_sentiment json_loads (registry_A (answering ''{oops}'')) ''great'' = Inr sentiment_error \<and>
   extract_intent json_loads (registry_A (answering ''{oops}'')) ''great'' = Inr intent_error"
proof -
  let ?F = "registry_A (failing ''timeout'')"
  let ?B = "registry_A (answering ''{oops}'')"
  have f1: "fst (generate ?F (sentiment_prompt ''great'') None derived_kwargs) =
     Inl (PyException ''All AI providers failed''
           (Some (AdapterException (BackendError ''timeout''))))"
    by (simp add: generate_def resolve_provider_def
      try_providers_def registry_A_def py_or_def dict_keys_def dict_get_def failing_def)
  have f2: "fst (generate ?F (intent_prompt ''great'') None derived_kwargs) =
     Inl (PyException ''All AI providers failed''
           (Some (AdapterException (BackendError ''timeout''))))"
    by (simp add: generate_def resolve_provider_def
      try_providers_def registry_A_def py_or_def dict_keys_def dict_get_def failing_def)
  have b1: "fst (generate ?B (sentiment_prompt ''great'') None derived_kwargs) = Inr ''{oops}''"
    by (simp add: generate_def resolve_provider_def
      try_providers_def registry_A_def py_or_def dict_keys_def dict_get_def answering_def)
  have b2: "fst (generate ?B (intent_prompt ''great'') None derived_kwargs) = Inr ''{oops}''"
    by (simp add: generate_def resolve_provider_def
      try_providers_def registry_A_def py_or_def dict_keys_def dict_get_def answering_def)
  have bp: "brace_pair ''{oops}''" by (simp add: brace_pair_def)
  have jl: "json_loads (json_span ''{oops}'') = None" by code_simp
  show ?thesis
    using f1 f2 b1 b2 bp jl
      derived_operations_swallow_failures
        [of ?F "''great''"
            "PyException ''All AI providers failed''
               (Some (AdapterException (BackendError ''timeout'')))"
            json_loads
            "PyException ''All AI providers failed''
               (Some (AdapterException (BackendError ''timeout'')))"]
      derived_operations_swallow_failures
        [of ?B "''great''" _ json_loads _ "''{oops}''" "''{oops}''"]
    by simp
qed

text \<open>
  Claim C8, as stated, at a response that holds the object after another pair of
  braces: the text from the first \<^verbatim>\<open>{\<close> to the last \<^verbatim>\<open>}\<close> is not the object, the
  decoder rejects it, and the operation returns its error record, not the record of
  the object.
\<close>

theorem sentiment_json_with_other_braces:
  "fst (generate (registry_A (answering (''{note} '' @ positive_json)))
         (sentiment_prompt ''great'') None derived_kwargs) =
     Inr (''{note} '' @ positive_json) \<and>
   analyze_sentiment json_loads (registry_A (answering (''{note} '' @ positive_json))) ''great'' =
     Inr sentiment_error \<and>
   sentiment_error \<noteq> positive_record \<and>
   json_loads positive_json = Some positive_record"
  by code_simp

text \<open>
  Claim C8, amended. For every raw response that holds the object
  \<^verbatim>\<open>{"sentiment":"positive","confidence":0.9,"emotions":["joy"],"tone":"upbeat"}\<close> with no
  \<^verbatim>\<open>{\<close> before it and no \<^verbatim>\<open>}\<close> after it, \<open>analyze_sentiment\<close> returns exactly the
  record \<^verbatim>\<open>json.loads\<close> builds from that object: sentiment \<^verbatim>\<open>positive\<close>, confidence 0.9,
  emotions \<^verbatim>\<open>joy\<close>, tone \<^verbatim>\<open>upbeat\<close>.
\<close>

theorem sentiment_json_between_outermost_braces:
  assumes "fst (generate self (sentiment_prompt text) None derived_kwargs) =
             Inr (pre @ positive_json @ post)"
      and "CHR ''{'' \<notin> set pre"
      and "CHR ''}'' \<notin> set post"
      and "loads positive_json = Some positive_record"
  shows "analyze_sentiment loads self text = Inr positive_record"
proof -
  let ?mid = "butlast (tl positive_json)"
  have pj: "positive_json = CHR ''{'' # ?mid @ [CHR ''}'']"
    by (simp add: positive_json_def)
  have "json_span (pre @ (CHR ''{'' # ?mid @ [CHR ''}'']) @ post) = CHR ''{'' # ?mid @ [CHR ''}'']"
    using assms(2) assms(3) by (rule json_span_embedded)
  then have span: "json_span (pre @ positive_json @ post) = positive_json"
    using pj by simp
  have "pre @ positive_json @ post = pre @ CHR ''{'' # ?mid @ CHR ''}'' # post"
    using pj by simp
  then have "brace_pair (pre @ positive_json @ post)"
    unfolding brace_pair_iff by blast
  then show ?thesis
    using assms(1) assms(4) span
    by (simp add: analyze_sentiment_def extract_json_cases)
qed

theorem sentiment_json_between_outermost_braces_witness:
  "fst (generate (registry_A (answering (''Result: '' @ positive_json @ '' Done.'')))
         (sentiment_prompt ''great'') None derived_kwargs) =
     Inr (''Result: '' @ positive_json @ '' Done.'') \<and>
   CHR ''{'' \<notin> set ''Result: '' \<and> CHR ''}'' \<notin> set '' Done.'' \<and>
   json_loads positive_json = Some positive_record \<and>
   analyze_sentiment json_loads (registry_A (answering (''Result: '' @ positive_json @ '' Done.'')))
     ''great'' = Inr positive_record"
proof -
  let ?S = "registry_A (answering (''Result: '' @ positive_json @ '' Done.''))"
  have g: "fst (generate ?S (sentiment_prompt ''great'') None derived_kwargs) =
     Inr (''Result: '' @ positive_json @ '' Done.'')"
    by (simp add: generate_def resolve_provider_def
      try_providers_def registry_A_def py_or_def dict_keys_def dict_get_def answering_def)
  have a: "CHR ''{'' \<notin> set ''Result: ''" by simp
  have b: "CHR ''}'' \<notin> set '' Done.''" by simp
  have "analyze_sentiment json_loads ?S ''great'' = Inr positive_record"
    using g a b json_loads_positive_json
    by (rule sentiment_json_between_outermost_braces
          [where pre = "''Result: ''" and post = "'' Done.''"])
  then show ?thesis
    using g a b json_loads_positive_json by simp
qed

text \<open>
  Claim C9. For every raw response in which no \<^verbatim>\<open>}\<close> stands after a \<^verbatim>\<open>{\<close> (no brace
  at all, only one kind, or every \<^verbatim>\<open>}\<close> before the first \<^verbatim>\<open>{\<close>), \<open>analyze_sentiment\<close>
  returns the record with sentiment \<^verbatim>\<open>neutral\<close>, confidence 0.5, no emotions and tone
  \<^verbatim>\<open>unclear\<close>, and raises nothing.
\<close>

theorem sentiment_without_brace_pair:
  assumes "fst (generate self (sentiment_prompt text) None derived_kwargs) = Inr response"
      and "\<not> brace_pair response"
  shows "analyze_sentiment loads self text = Inr sentiment_unclear"
  using assms by (simp add: analyze_sentiment_def extract_json_cases)

theorem sentiment_without_brace_pair_witness:
  "fst (generate (registry_A (answering ''} positive, no JSON {'')) (sentiment_prompt ''great'')
         None derived_kwargs) = Inr ''} positive, no JSON {'' \<and>
   \<not> brace_pair ''} positive, no JSON {'' \<and>
   analyze_sentiment json_loads (registry_A (answering ''} positive, no JSON {'')) ''great'' =
     Inr sentiment_unclear"
proof -
  let ?S = "registry_A (answering ''} positive, no JSON {'')"
  have g: "fst (generate ?S (sentiment_prompt ''great'') None derived_kwargs) =
     Inr ''} positive, no JSON {''"
    by (simp add: generate_def resolve_provider_def
      try_providers_def registry_A_def py_or_def dict_keys_def dict_get_def answering_def)
  have n: "\<not> brace_pair ''} positive, no JSON {''" by (simp add: brace_pair_def)
  show ?thesis
    using g n sentiment_without_brace_pair [OF g n, of json_loads] by simp
qed


end
